theory Spec2Isabelle
  imports Main "HOL-Library.Word"
begin

unbundle bit_operations_syntax

section \<open>The serial LCD driver (package \<open>serial_lcd\<close>, file \<open>lcd.go\<close>)\<close>

subsection \<open>Data model\<close>

text \<open>
  Go's \<open>byte\<close> and \<open>uint8\<close> are 8-bit words; a \<open>rune\<close> is an \<open>int32\<close>.
  The three state types of the package are named \<open>uint8\<close> types, so every byte value
  inhabits them. A Go \<open>string\<close> is a sequence of bytes, which is what \<^typ>\<open>string\<close> is.
\<close>

type_synonym byte = "8 word"
type_synonym rune = "32 word"

type_synonym UnderlineCursorState = byte
type_synonym BlockCursorState = byte
type_synonym AutoscrollState = byte

text \<open>\<open>type Char [8]byte\<close>: a list of bytes whose length is 8.\<close>

type_synonym Char = "byte list"

text \<open>
  \<open>type LCD struct{ io.ReadWriteCloser }\<close>. The driver calls only the \<open>Write\<close> method of
  the embedded interface value. The device behind the interface is a state of type \<open>'s\<close>
  that \<open>Write\<close> takes and returns; its result is Go's pair \<open>(n int, err error)\<close>, where
  \<open>None\<close> is the \<open>nil\<close> error.
\<close>

record ('s, 'e) LCD =
  Write :: "byte list \<Rightarrow> 's \<Rightarrow> (int \<times> 'e option) \<times> 's"

subsection \<open>The command table (the \<open>const\<close> block)\<close>

definition COMMAND :: byte where "COMMAND = 0xFE"
definition BACKLIGHT_ON :: byte where "BACKLIGHT_ON = 0x42"
definition BACKLIGHT_OFF :: byte where "BACKLIGHT_OFF = 0x46"
definition BRIGHTNESS :: byte where "BRIGHTNESS = 0x99"
definition CONTRAST :: byte where "CONTRAST = 0x91"
definition CLEAR :: byte where "CLEAR = 0x58"
definition AUTOSCROLL_ON :: AutoscrollState where "AUTOSCROLL_ON = 0x51"
definition AUTOSCROLL_OFF :: AutoscrollState where "AUTOSCROLL_OFF = 0x52"
definition SET_STARTUP_SPLASH :: byte where "SET_STARTUP_SPLASH = 0x40"
definition SET_CURSOR_POSITION :: byte where "SET_CURSOR_POSITION = 0x47"
definition GO_HOME :: byte where "GO_HOME = 0x48"
definition CURSOR_BACK :: byte where "CURSOR_BACK = 0x4C"
definition CURSOR_FORWARD :: byte where "CURSOR_FORWARD = 0x4D"
definition UNDERLINE_CURSOR_ON :: UnderlineCursorState where "UNDERLINE_CURSOR_ON = 0x4A"
definition UNDERLINE_CURSOR_OFF :: UnderlineCursorState where "UNDERLINE_CURSOR_OFF = 0x4B"
definition BLOCK_CURSOR_ON :: BlockCursorState where "BLOCK_CURSOR_ON = 0x53"
definition BLOCK_CURSOR_OFF :: BlockCursorState where "BLOCK_CURSOR_OFF = 0x54"
definition SET_RGB_BACKLIGHT_COLOR :: byte where "SET_RGB_BACKLIGHT_COLOR = 0xD0"
definition SET_LCD_SIZE :: byte where "SET_LCD_SIZE = 0xD1"
definition CREATE_CUSTOM_CHARACTER :: byte where "CREATE_CUSTOM_CHARACTER = 0x4E"
definition SAVE_CUSTOM_CHARACTER_TO_EEPROM_BANK :: byte where
  "SAVE_CUSTOM_CHARACTER_TO_EEPROM_BANK = 0xC1"
definition LOAD_CUSTOM_CHARACTERS_FROM_EEPROM_BANK :: byte where
  "LOAD_CUSTOM_CHARACTERS_FROM_EEPROM_BANK = 0xC0"

subsection \<open>The command encoder (the methods of \<open>LCD\<close>)\<close>

text \<open>\<open>func dropN(n int, e error) error { return e }\<close>\<close>

definition dropN :: "int \<Rightarrow> 'e option \<Rightarrow> 'e option" where
  "dropN n e = e"

text \<open>
  \<open>func (l LCD) Raw(bytes ...byte) error { return dropN(l.Write(bytes)) }\<close>.
  Every method returns its \<open>error\<close> together with the device state the call leaves.
\<close>

definition Raw :: "('s, 'e) LCD \<Rightarrow> byte list \<Rightarrow> 's \<Rightarrow> 'e option \<times> 's" where
  "Raw l bytes s = (case Write l bytes s of ((n, e), s') \<Rightarrow> (dropN n e, s'))"

definition SetBG :: "('s, 'e) LCD \<Rightarrow> byte \<Rightarrow> byte \<Rightarrow> byte \<Rightarrow> 's \<Rightarrow> 'e option \<times> 's" where
  "SetBG l r g b = Raw l [COMMAND, SET_RGB_BACKLIGHT_COLOR, r, g, b]"

definition Off :: "('s, 'e) LCD \<Rightarrow> 's \<Rightarrow> 'e option \<times> 's" where
  "Off l = Raw l [COMMAND, BACKLIGHT_OFF]"

definition On :: "('s, 'e) LCD \<Rightarrow> 's \<Rightarrow> 'e option \<times> 's" where
  "On l = Raw l [COMMAND, BACKLIGHT_ON, 0]"

definition SetBrightness :: "('s, 'e) LCD \<Rightarrow> byte \<Rightarrow> 's \<Rightarrow> 'e option \<times> 's" where
  "SetBrightness l b = Raw l [COMMAND, BRIGHTNESS, b]"

definition SetContrast :: "('s, 'e) LCD \<Rightarrow> byte \<Rightarrow> 's \<Rightarrow> 'e option \<times> 's" where
  "SetContrast l c = Raw l [COMMAND, CONTRAST, c]"

definition SetAutoscroll :: "('s, 'e) LCD \<Rightarrow> AutoscrollState \<Rightarrow> 's \<Rightarrow> 'e option \<times> 's" where
  "SetAutoscroll l a = Raw l [COMMAND, a]"

definition SetSize :: "('s, 'e) LCD \<Rightarrow> byte \<Rightarrow> byte \<Rightarrow> 's \<Rightarrow> 'e option \<times> 's" where
  "SetSize l cols rows = Raw l [COMMAND, SET_LCD_SIZE, cols, rows]"

definition Clear :: "('s, 'e) LCD \<Rightarrow> 's \<Rightarrow> 'e option \<times> 's" where
  "Clear l = Raw l [COMMAND, CLEAR]"

definition SetCursor ::
  "('s, 'e) LCD \<Rightarrow> UnderlineCursorState \<Rightarrow> BlockCursorState \<Rightarrow> 's \<Rightarrow> 'e option \<times> 's" where
  "SetCursor l u b = Raw l [COMMAND, u, COMMAND, b]"

definition Home :: "('s, 'e) LCD \<Rightarrow> 's \<Rightarrow> 'e option \<times> 's" where
  "Home l = Raw l [COMMAND, GO_HOME]"

definition MoveTo :: "('s, 'e) LCD \<Rightarrow> byte \<Rightarrow> byte \<Rightarrow> 's \<Rightarrow> 'e option \<times> 's" where
  "MoveTo l col row = Raw l [COMMAND, SET_CURSOR_POSITION, col, row]"

definition MoveForward :: "('s, 'e) LCD \<Rightarrow> 's \<Rightarrow> 'e option \<times> 's" where
  "MoveForward l = Raw l [COMMAND, CURSOR_FORWARD]"

definition MoveBack :: "('s, 'e) LCD \<Rightarrow> 's \<Rightarrow> 'e option \<times> 's" where
  "MoveBack l = Raw l [COMMAND, CURSOR_BACK]"

text \<open>
  \<open>l.Raw(append([]byte{COMMAND, CREATE_CUSTOM_CHARACTER, spot}, c[:]...)...)\<close>:
  the three header bytes followed by the whole array \<open>c\<close>.
\<close>

definition CreateCustomChar :: "('s, 'e) LCD \<Rightarrow> byte \<Rightarrow> Char \<Rightarrow> 's \<Rightarrow> 'e option \<times> 's" where
  "CreateCustomChar l spot c = Raw l ([COMMAND, CREATE_CUSTOM_CHARACTER, spot] @ c)"

text \<open>
  A call of any method of the encoder, as a value, so that a statement can range over the
  methods. \<open>call\<close> invokes the method named.
\<close>

datatype operation =
    OpSetBG byte byte byte
  | OpOff
  | OpOn
  | OpSetBrightness byte
  | OpSetContrast byte
  | OpSetAutoscroll AutoscrollState
  | OpSetSize byte byte
  | OpClear
  | OpSetCursor UnderlineCursorState BlockCursorState
  | OpHome
  | OpMoveTo byte byte
  | OpMoveForward
  | OpMoveBack
  | OpCreateCustomChar byte Char
  | OpRaw "byte list"

fun call :: "('s, 'e) LCD \<Rightarrow> operation \<Rightarrow> 's \<Rightarrow> 'e option \<times> 's" where
  "call l (OpSetBG r g b) = SetBG l r g b"
| "call l OpOff = Off l"
| "call l OpOn = On l"
| "call l (OpSetBrightness b) = SetBrightness l b"
| "call l (OpSetContrast c) = SetContrast l c"
| "call l (OpSetAutoscroll a) = SetAutoscroll l a"
| "call l (OpSetSize cols rows) = SetSize l cols rows"
| "call l OpClear = Clear l"
| "call l (OpSetCursor u b) = SetCursor l u b"
| "call l OpHome = Home l"
| "call l (OpMoveTo col row) = MoveTo l col row"
| "call l OpMoveForward = MoveForward l"
| "call l OpMoveBack = MoveBack l"
| "call l (OpCreateCustomChar spot c) = CreateCustomChar l spot c"
| "call l (OpRaw bytes) = Raw l bytes"

subsection \<open>Ranging over a string\<close>

text \<open>
  \<open>for _, c := range line\<close> does not visit the bytes of \<open>line\<close> but its UTF-8 encoded
  code points: a byte below \<open>runeSelf\<close> is its own rune, a longer well-formed sequence is
  decoded, and a byte that starts no well-formed sequence yields \<open>runeError\<close> (U+FFFD) and
  is stepped over alone. \<open>decoderune\<close> is the decoder of Go's runtime (\<open>runtime/utf8.go\<close>),
  returning the rune and the number of bytes it takes.
\<close>

definition runeError :: rune where "runeError = 0xFFFD"
definition runeSelf :: byte where "runeSelf = 0x80"
definition maxRune :: rune where "maxRune = 0x10FFFF"
definition surrogateMin :: rune where "surrogateMin = 0xD800"
definition surrogateMax :: rune where "surrogateMax = 0xDFFF"
definition t2 :: byte where "t2 = 0xC0"
definition t3 :: byte where "t3 = 0xE0"
definition t4 :: byte where "t4 = 0xF0"
definition t5 :: byte where "t5 = 0xF8"
definition maskx :: byte where "maskx = 0x3F"
definition mask2 :: byte where "mask2 = 0x1F"
definition mask3 :: byte where "mask3 = 0x0F"
definition mask4 :: byte where "mask4 = 0x07"
definition rune1Max :: rune where "rune1Max = 0x7F"
definition rune2Max :: rune where "rune2Max = 0x7FF"
definition rune3Max :: rune where "rune3Max = 0xFFFF"
definition locb :: byte where "locb = 0x80"
definition hicb :: byte where "hicb = 0xBF"

text \<open>The conversion \<open>rune(b)\<close> of a byte.\<close>

definition rune_of :: "byte \<Rightarrow> rune" where
  "rune_of b = ucast b"

definition continuation :: "byte \<Rightarrow> bool" where
  "continuation b = (locb \<le> b \<and> b \<le> hicb)"

definition decoderune :: "byte list \<Rightarrow> rune \<times> nat" where
  "decoderune s =
    (if s = [] then (runeError, 1)
     else if t2 \<le> s ! 0 \<and> s ! 0 < t3 then
       (if 1 < length s \<and> continuation (s ! 1) then
          (let r = push_bit 6 (rune_of (s ! 0 AND mask2)) OR rune_of (s ! 1 AND maskx)
           in if rune1Max < r then (r, 2) else (runeError, 1))
        else (runeError, 1))
     else if t3 \<le> s ! 0 \<and> s ! 0 < t4 then
       (if 2 < length s \<and> continuation (s ! 1) \<and> continuation (s ! 2) then
          (let r = push_bit 12 (rune_of (s ! 0 AND mask3))
                   OR push_bit 6 (rune_of (s ! 1 AND maskx))
                   OR rune_of (s ! 2 AND maskx)
           in if rune2Max < r \<and> \<not> (surrogateMin \<le> r \<and> r \<le> surrogateMax) then (r, 3)
              else (runeError, 1))
        else (runeError, 1))
     else if t4 \<le> s ! 0 \<and> s ! 0 < t5 then
       (if 3 < length s \<and> continuation (s ! 1) \<and> continuation (s ! 2) \<and> continuation (s ! 3)
        then
          (let r = push_bit 18 (rune_of (s ! 0 AND mask4))
                   OR push_bit 12 (rune_of (s ! 1 AND maskx))
                   OR push_bit 6 (rune_of (s ! 2 AND maskx))
                   OR rune_of (s ! 3 AND maskx)
           in if rune3Max < r \<and> r \<le> maxRune then (r, 4) else (runeError, 1))
        else (runeError, 1))
     else (runeError, 1))"

fun range_bytes :: "byte list \<Rightarrow> rune list" where
  "range_bytes [] = []"
| "range_bytes (b # bs) =
     (if b < runeSelf then rune_of b # range_bytes bs
      else (case decoderune (b # bs) of (r, w) \<Rightarrow> r # range_bytes (drop (w - 1) bs)))"

text \<open>The values \<open>c\<close> that \<open>for _, c := range line\<close> goes through, in order.\<close>

definition range_string :: "string \<Rightarrow> rune list" where
  "range_string line = range_bytes (map of_char line)"

subsection \<open>The glyph compiler (\<open>MakeChar\<close>)\<close>

text \<open>
  The body of the inner loop:
  \<^verbatim>\<open>pixels = pixels << 1; if c != '.' && c != ' ' { pixels |= 1 }\<close>
\<close>

definition shift_in :: "byte \<Rightarrow> rune \<Rightarrow> byte" where
  "shift_in pixels c =
     (let pixels = push_bit 1 pixels
      in if c \<noteq> of_char (CHR ''.'') \<and> c \<noteq> of_char (CHR '' '') then pixels OR 1 else pixels)"

text \<open>The inner loop over the runes of one line, from the accumulator \<open>pixels\<close>.\<close>

fun scan_line :: "byte \<Rightarrow> rune list \<Rightarrow> byte" where
  "scan_line pixels [] = pixels"
| "scan_line pixels (c # cs) = scan_line (shift_in pixels c) cs"

text \<open>
  The outer loop \<open>for i, line := range lines\<close>, at index \<open>i\<close> with the lines still to
  visit: \<open>var pixels byte\<close> starts at 0 and \<open>charDef[i] = pixels\<close> stores the row. With
  \<open>lines\<close> a \<open>[8]string\<close> the index stays below 8, the length of \<open>charDef\<close>.
\<close>

fun scan_lines :: "nat \<Rightarrow> string list \<Rightarrow> Char \<Rightarrow> Char" where
  "scan_lines i [] charDef = charDef"
| "scan_lines i (line # rest) charDef =
     scan_lines (Suc i) rest (charDef[i := scan_line 0 (range_string line)])"

text \<open>\<open>var charDef Char\<close> is eight zero bytes.\<close>

definition MakeChar :: "string list \<Rightarrow> Char" where
  "MakeChar lines = scan_lines 0 lines (replicate 8 0)"

subsection \<open>The specification's tables and wording\<close>

text \<open>
  The wire encodings of the framed operations as the specification lists them: the
  opcode that follows the COMMAND prefix, and the bytes that follow the opcode. For
  ``set cursor flags'' these are the second frame, COMMAND and the block-cursor opcode.
\<close>

fun framed :: "operation \<Rightarrow> bool" where
  "framed (OpRaw bytes) = False"
| "framed _ = True"

fun spec_opcode :: "operation \<Rightarrow> byte" where
  "spec_opcode (OpSetBG r g b) = 0xD0"
| "spec_opcode OpOn = 0x42"
| "spec_opcode OpOff = 0x46"
| "spec_opcode (OpSetBrightness b) = 0x99"
| "spec_opcode (OpSetContrast c) = 0x91"
| "spec_opcode (OpSetAutoscroll a) = a"
| "spec_opcode (OpSetSize cols rows) = 0xD1"
| "spec_opcode OpClear = 0x58"
| "spec_opcode (OpSetCursor u b) = u"
| "spec_opcode OpHome = 0x48"
| "spec_opcode (OpMoveTo col row) = 0x47"
| "spec_opcode OpMoveForward = 0x4D"
| "spec_opcode OpMoveBack = 0x4C"
| "spec_opcode (OpCreateCustomChar slot glyph) = 0x4E"
| "spec_opcode (OpRaw bytes) = 0"

fun spec_arguments :: "operation \<Rightarrow> byte list" where
  "spec_arguments (OpSetBG r g b) = [r, g, b]"
| "spec_arguments OpOn = [0x00]"
| "spec_arguments OpOff = []"
| "spec_arguments (OpSetBrightness b) = [b]"
| "spec_arguments (OpSetContrast c) = [c]"
| "spec_arguments (OpSetAutoscroll a) = []"
| "spec_arguments (OpSetSize cols rows) = [cols, rows]"
| "spec_arguments OpClear = []"
| "spec_arguments (OpSetCursor u b) = [0xFE, b]"
| "spec_arguments OpHome = []"
| "spec_arguments (OpMoveTo col row) = [col, row]"
| "spec_arguments OpMoveForward = []"
| "spec_arguments OpMoveBack = []"
| "spec_arguments (OpCreateCustomChar slot glyph) = slot # glyph"
| "spec_arguments (OpRaw bytes) = []"

text \<open>
  The bytes an operation puts on the wire, by the specification: a frame, or for the raw
  passthrough the bytes verbatim.
\<close>

fun spec_wire :: "operation \<Rightarrow> byte list" where
  "spec_wire (OpRaw bytes) = bytes"
| "spec_wire operation = 0xFE # spec_opcode operation # spec_arguments operation"

text \<open>
  An ``on'' marker is any character that is neither space nor period. The
  specification's row algorithm, on numbers: shifting the accumulator left by one bit
  doubles it within the byte, and the new low bit is 1 for an ``on'' marker, else 0.
\<close>

definition on_marker :: "rune \<Rightarrow> bool" where
  "on_marker c = (c \<noteq> 0x20 \<and> c \<noteq> 0x2E)"

definition spec_row_step :: "nat \<Rightarrow> rune \<Rightarrow> nat" where
  "spec_row_step acc c = (2 * acc + (if on_marker c then 1 else 0)) mod 256"

definition spec_row :: "rune list \<Rightarrow> nat" where
  "spec_row cs = foldl spec_row_step 0 cs"

subsection \<open>A sink for tests\<close>

text \<open>
  An in-memory sink in place of the serial port: its state is the log of the \<open>Write\<close>
  calls made, one entry per call and the oldest first, and \<open>res\<close> is the result it gives
  to a call. \<open>working\<close> accepts every byte; \<open>broken e\<close> fails every call with \<open>e\<close>.
\<close>

definition recorder :: "(byte list \<Rightarrow> int \<times> 'e option) \<Rightarrow> (byte list list, 'e) LCD" where
  "recorder res = \<lparr>Write = (\<lambda>bytes log. (res bytes, log @ [bytes]))\<rparr>"

definition working :: "(byte list list, string) LCD" where
  "working = recorder (\<lambda>bytes. (int (length bytes), None))"

definition broken :: "string \<Rightarrow> (byte list list, string) LCD" where
  "broken e = recorder (\<lambda>bytes. (0, Some e))"

text \<open>The pattern of \<open>MakeChar\<close>'s documentation, which the test program sends to slot 0.\<close>

definition heart :: "string list" where
  "heart = [''.....'', ''.*.*.'', ''*.*.*'', ''*...*'', ''*...*'', ''.*.*.'', ''..*..'', ''.....'']"

text \<open>
  Further patterns: one of ``off'' markers only, one of ``on'' markers with five
  characters in every row (the last row is five times U+2588, three bytes each), the heart
  drawn with other markers, and one with rows of 1, 6 and 9 characters.
\<close>

definition blank_pattern :: "string list" where
  "blank_pattern = [''.....'', ''     '', ''. . .'', '' . . '', ''.....'', ''     '', ''..  .'', ''.....'']"

definition full_pattern :: "string list" where
  "full_pattern =
     [''*****'', ''#####'', ''XXXXX'', ''*#*#*'', ''12345'', ''ooooo'', '',,,,,'',
      concat (replicate 5 [CHR 0xE2, CHR 0x96, CHR 0x88])]"

definition hash_heart :: "string list" where
  "hash_heart = [''     '', '' # # '', ''# # #'', ''#   #'', ''#   #'', '' # # '', ''  #  '', ''     '']"

definition ragged :: "string list" where
  "ragged = [''*'', ''*.....'', ''*........'', ''.....'', ''.....'', ''.....'', ''.....'', ''.....'']"

section \<open>Properties\<close>

subsection \<open>Every method is one \<open>Write\<close>\<close>

lemmas command_table =
  COMMAND_def BACKLIGHT_ON_def BACKLIGHT_OFF_def BRIGHTNESS_def CONTRAST_def CLEAR_def
  AUTOSCROLL_ON_def AUTOSCROLL_OFF_def SET_CURSOR_POSITION_def GO_HOME_def CURSOR_BACK_def
  CURSOR_FORWARD_def UNDERLINE_CURSOR_ON_def UNDERLINE_CURSOR_OFF_def BLOCK_CURSOR_ON_def
  BLOCK_CURSOR_OFF_def SET_RGB_BACKLIGHT_COLOR_def SET_LCD_SIZE_def
  CREATE_CUSTOM_CHARACTER_def

lemmas encoder_defs =
  SetBG_def Off_def On_def SetBrightness_def SetContrast_def SetAutoscroll_def SetSize_def
  Clear_def SetCursor_def Home_def MoveTo_def MoveForward_def MoveBack_def
  CreateCustomChar_def

lemma Raw_one_write:
  "Raw l bytes s = (snd (fst (Write l bytes s)), snd (Write l bytes s))"
  by (simp add: Raw_def dropN_def split: prod.splits)

lemma Raw_recorder:
  "Raw (recorder res) bytes log = (snd (res bytes), log @ [bytes])"
  by (simp add: Raw_one_write recorder_def)

lemma call_eq_Raw: "call l operation = Raw l (spec_wire operation)"
  by (cases operation) (simp_all add: encoder_defs command_table)

lemma framed_wire:
  "framed operation \<Longrightarrow>
     spec_wire operation = 0xFE # spec_opcode operation # spec_arguments operation"
  by (cases operation) simp_all

subsection \<open>The loops of \<open>MakeChar\<close>\<close>

lemma scan_lines_eq:
  "i + length lines \<le> length charDef \<Longrightarrow>
     scan_lines i lines charDef =
       take i charDef @ map (\<lambda>line. scan_line 0 (range_string line)) lines
         @ drop (i + length lines) charDef"
proof (induction lines arbitrary: i charDef)
  case Nil
  then show ?case by simp
next
  case (Cons line rest)
  then have i: "i < length charDef" by simp
  from Cons.prems have "Suc i + length rest \<le> length (charDef[i := scan_line 0 (range_string line)])"
    by simp
  from Cons.IH [OF this] i show ?case
    by (simp add: take_Suc_conv_app_nth)
qed

lemma MakeChar_map:
  "length lines = 8 \<Longrightarrow> MakeChar lines = map (\<lambda>line. scan_line 0 (range_string line)) lines"
  by (simp add: MakeChar_def scan_lines_eq)

lemma on_marker_iff: "(c \<noteq> of_char (CHR ''.'') \<and> c \<noteq> of_char (CHR '' '')) = on_marker c"
  by (auto simp: on_marker_def)

lemma shift_in_alt:
  "shift_in pixels c = 2 * pixels + (if on_marker c then 1 else 0)"
  by (simp add: shift_in_def Let_def on_marker_iff or_one_eq push_bit_eq_mult del: of_char_Char)

lemma unat_shift_in: "unat (shift_in pixels c) = spec_row_step (unat pixels) c"
  by (simp add: shift_in_alt spec_row_step_def unat_word_ariths mod_simps)

lemma unat_scan_line: "unat (scan_line pixels cs) = foldl spec_row_step (unat pixels) cs"
  by (induction cs arbitrary: pixels) (simp_all add: unat_shift_in)

lemma bit_shl1:
  "bit (push_bit 1 (pixels :: byte)) k \<longleftrightarrow> 0 < k \<and> k < 8 \<and> bit pixels (k - 1)"
  using bit_push_bit_iff [of 1 pixels k] by (auto simp: possible_bit_word)

lemma bit_shift_in:
  "bit (shift_in pixels c) k \<longleftrightarrow> k < 8 \<and> (if k = 0 then on_marker c else bit pixels (k - 1))"
proof -
  have "shift_in pixels c = (if on_marker c then push_bit 1 pixels OR 1 else push_bit 1 pixels)"
    by (simp only: shift_in_def Let_def on_marker_iff)
  then show ?thesis
    by (auto simp only: bit_or_iff bit_shl1 bit_1_iff split: if_splits)
qed

lemma bit_scan_line:
  "bit (scan_line pixels cs) k \<longleftrightarrow>
     k < 8 \<and> (if k < length cs then on_marker (rev cs ! k) else bit pixels (k - length cs))"
proof (induction cs arbitrary: pixels)
  case Nil
  then show ?case by (auto dest: bit_imp_le_length)
next
  case (Cons c cs)
  show ?case
    by (auto simp: Cons.IH bit_shift_in nth_append Suc_diff_le)
qed

lemma range_bytes_ascii:
  "\<forall>b \<in> set bs. b < 0x80 \<Longrightarrow> range_bytes bs = map rune_of bs"
  by (induction bs) (simp_all add: runeSelf_def)

lemma scan_line_pattern:
  "map on_marker cs = map on_marker cs' \<Longrightarrow> scan_line pixels cs = scan_line pixels cs'"
proof (induction cs arbitrary: cs' pixels)
  case Nil
  then show ?case by simp
next
  case (Cons c cs)
  then obtain c' ds where cs': "cs' = c' # ds" by (cases cs') auto
  with Cons.prems have "on_marker c = on_marker c'" "map on_marker cs = map on_marker ds"
    by simp_all
  then show ?case
    using Cons.IH [of ds] by (simp add: cs' shift_in_alt)
qed

lemma scan_line_all_off:
  "\<forall>c \<in> set cs. \<not> on_marker c \<Longrightarrow> scan_line 0 cs = 0"
  by (induction cs) (simp_all add: shift_in_alt)

lemma scan_line_five_on:
  assumes "length cs = 5" and "\<forall>c \<in> set cs. on_marker c"
  shows "scan_line 0 cs = 0x1F"
proof -
  from assms(1) obtain a b c d e where "cs = [a, b, c, d, e]"
    by (auto simp: numeral_eq_Suc length_Suc_conv)
  with assms(2) show ?thesis
    by (simp add: shift_in_alt)
qed

lemma map_constant:
  "\<forall>x \<in> set xs. f x = v \<Longrightarrow> map f xs = replicate (length xs) v"
  by (induction xs) simp_all

lemma replicate_eight: "replicate 8 v = [v, v, v, v, v, v, v, v]"
  by (simp add: numeral_eq_Suc)

lemma spec_row_bound: "foldl spec_row_step 0 cs < 2 ^ length cs"
proof (induction cs rule: rev_induct)
  case Nil
  then show ?case by simp
next
  case (snoc c cs)
  have "spec_row_step (foldl spec_row_step 0 cs) c \<le> 2 * foldl spec_row_step 0 cs + 1"
    unfolding spec_row_step_def by (rule order_trans [OF mod_less_eq_dividend]) simp
  with snoc show ?case by simp
qed

lemma scan_line_last_eight:
  "scan_line 0 cs = scan_line 0 (drop (length cs - 8) cs)"
proof (rule bit_word_eqI)
  fix k
  assume "k < LENGTH(8)"
  then have k: "k < 8" by simp
  show "bit (scan_line 0 cs) k \<longleftrightarrow> bit (scan_line 0 (drop (length cs - 8) cs)) k"
    using k by (auto simp: bit_scan_line rev_drop)
qed

subsection \<open>The command encoder: claims\<close>

text \<open>
  Claim C1. Every framed operation (set background colour, backlight on and off,
  brightness, contrast, autoscroll, display size, clear, cursor flags, home, move cursor,
  cursor forward and back, create custom character) makes exactly one \<open>Write\<close> call, on
  the byte sequence that starts with the COMMAND prefix 0xFE, goes on with the opcode and
  ends with the bytes that follow the opcode in the order of the command table. On any
  sink \<open>l\<close> the result of the method is read off that one call; on the recording sink the
  log grows by one entry, the whole sequence.
\<close>

theorem framed_operations_single_write:
  "framed operation \<Longrightarrow>
     call l operation s =
       (case Write l (0xFE # spec_opcode operation # spec_arguments operation) s of
          ((n, e), s') \<Rightarrow> (e, s'))
     \<and> call (recorder res) operation log =
       (snd (res (0xFE # spec_opcode operation # spec_arguments operation)),
        log @ [0xFE # spec_opcode operation # spec_arguments operation])"
  by (simp add: call_eq_Raw framed_wire Raw_recorder) (simp add: Raw_one_write split: prod.splits)

theorem framed_operations_single_write_witness:
  "framed (OpSetBG 100 0 100)
   \<and> call working (OpSetBG 100 0 100) [] = (None, [[0xFE, 0xD0, 100, 0, 100]])
   \<and> call working OpOn [] = (None, [[0xFE, 0x42, 0]])
   \<and> call working OpOff [] = (None, [[0xFE, 0x46]])
   \<and> call working (OpSetBrightness 255) [] = (None, [[0xFE, 0x99, 255]])
   \<and> call working (OpSetContrast 200) [] = (None, [[0xFE, 0x91, 200]])
   \<and> call working (OpSetAutoscroll AUTOSCROLL_ON) [] = (None, [[0xFE, 0x51]])
   \<and> call working (OpSetSize 16 2) [] = (None, [[0xFE, 0xD1, 16, 2]])
   \<and> call working OpClear [] = (None, [[0xFE, 0x58]])
   \<and> call working (OpSetCursor UNDERLINE_CURSOR_ON BLOCK_CURSOR_ON) [] =
         (None, [[0xFE, 0x4A, 0xFE, 0x53]])
   \<and> call working OpHome [] = (None, [[0xFE, 0x48]])
   \<and> call working (OpMoveTo 8 2) [] = (None, [[0xFE, 0x47, 8, 2]])
   \<and> call working OpMoveForward [] = (None, [[0xFE, 0x4D]])
   \<and> call working OpMoveBack [] = (None, [[0xFE, 0x4C]])
   \<and> call working (OpCreateCustomChar 3 [1, 2, 3, 4, 5, 6, 7, 8]) [] =
         (None, [[0xFE, 0x4E, 3, 1, 2, 3, 4, 5, 6, 7, 8]])"
  using
    framed_operations_single_write [of "OpSetBG 100 0 100" working "[]", THEN conjunct1]
    framed_operations_single_write [of OpOn working "[]", THEN conjunct1]
    framed_operations_single_write [of OpOff working "[]", THEN conjunct1]
    framed_operations_single_write [of "OpSetBrightness 255" working "[]", THEN conjunct1]
    framed_operations_single_write [of "OpSetContrast 200" working "[]", THEN conjunct1]
    framed_operations_single_write [of "OpSetAutoscroll AUTOSCROLL_ON" working "[]", THEN conjunct1]
    framed_operations_single_write [of "OpSetSize 16 2" working "[]", THEN conjunct1]
    framed_operations_single_write [of OpClear working "[]", THEN conjunct1]
    framed_operations_single_write [of "OpSetCursor UNDERLINE_CURSOR_ON BLOCK_CURSOR_ON" working "[]", THEN conjunct1]
    framed_operations_single_write [of OpHome working "[]", THEN conjunct1]
    framed_operations_single_write [of "OpMoveTo 8 2" working "[]", THEN conjunct1]
    framed_operations_single_write [of OpMoveForward working "[]", THEN conjunct1]
    framed_operations_single_write [of OpMoveBack working "[]", THEN conjunct1]
    framed_operations_single_write
      [of "OpCreateCustomChar 3 [1, 2, 3, 4, 5, 6, 7, 8]" working "[]", THEN conjunct1]
  by (simp add: working_def recorder_def AUTOSCROLL_ON_def UNDERLINE_CURSOR_ON_def
      BLOCK_CURSOR_ON_def)

text \<open>
  Claim C2. For all bytes \<open>r\<close>, \<open>g\<close>, \<open>b\<close> (the type holds exactly the values 0 to 255),
  \<open>SetBG\<close> writes the five bytes 0xFE, 0xD0, \<open>r\<close>, \<open>g\<close>, \<open>b\<close> in one call and returns what
  the sink answers: no value is refused.
\<close>

theorem SetBG_wire:
  "SetBG l r g b s = (case Write l [0xFE, 0xD0, r, g, b] s of ((n, e), s') \<Rightarrow> (e, s'))
   \<and> SetBG (recorder res) r g b log = (snd (res [0xFE, 0xD0, r, g, b]), log @ [[0xFE, 0xD0, r, g, b]])
   \<and> length [0xFE, 0xD0, r, g, b] = 5"
  by (simp add: SetBG_def command_table Raw_recorder) (simp add: Raw_one_write split: prod.splits)

theorem SetBG_wire_witness:
  "SetBG working 0 0 255 [] = (None, [[0xFE, 0xD0, 0, 0, 255]])
   \<and> SetBG working 255 128 0 [[0xFE, 0x58]] = (None, [[0xFE, 0x58], [0xFE, 0xD0, 255, 128, 0]])
   \<and> SetBG (broken ''port closed'') 1 2 3 [] = (Some ''port closed'', [[0xFE, 0xD0, 1, 2, 3]])"
  using SetBG_wire [of working 0 0 255 "[]", THEN conjunct1]
    SetBG_wire [of working 255 128 0 "[[0xFE, 0x58]]", THEN conjunct1]
    SetBG_wire [of "broken ''port closed''" 1 2 3 "[]", THEN conjunct1]
  by (simp add: working_def broken_def recorder_def)

text \<open>
  Claim C3. For every underline-cursor state \<open>u\<close> and block-cursor state \<open>b\<close> (the four
  named states among them), \<open>SetCursor\<close> writes in one call the frame 0xFE, \<open>u\<close> followed
  by the frame 0xFE, \<open>b\<close>: the second prefix is never dropped. With both cursors off the
  bytes are 0xFE, 0x4B, 0xFE, 0x54.
\<close>

theorem SetCursor_two_frames:
  "SetCursor l u b s = (case Write l ([0xFE, u] @ [0xFE, b]) s of ((n, e), s') \<Rightarrow> (e, s'))
   \<and> SetCursor (recorder res) u b log = (snd (res [0xFE, u, 0xFE, b]), log @ [[0xFE, u, 0xFE, b]])
   \<and> SetCursor (recorder res) UNDERLINE_CURSOR_OFF BLOCK_CURSOR_OFF log =
       (snd (res [0xFE, 0x4B, 0xFE, 0x54]), log @ [[0xFE, 0x4B, 0xFE, 0x54]])"
  by (simp add: SetCursor_def command_table Raw_recorder) (simp add: Raw_one_write split: prod.splits)

theorem SetCursor_two_frames_witness:
  "SetCursor working UNDERLINE_CURSOR_ON BLOCK_CURSOR_ON [] = (None, [[0xFE, 0x4A, 0xFE, 0x53]])
   \<and> SetCursor working UNDERLINE_CURSOR_ON BLOCK_CURSOR_OFF [] = (None, [[0xFE, 0x4A, 0xFE, 0x54]])
   \<and> SetCursor working UNDERLINE_CURSOR_OFF BLOCK_CURSOR_ON [] = (None, [[0xFE, 0x4B, 0xFE, 0x53]])
   \<and> SetCursor working UNDERLINE_CURSOR_OFF BLOCK_CURSOR_OFF [] = (None, [[0xFE, 0x4B, 0xFE, 0x54]])"
  using SetCursor_two_frames [of working UNDERLINE_CURSOR_ON BLOCK_CURSOR_ON "[]", THEN conjunct1]
    SetCursor_two_frames [of working UNDERLINE_CURSOR_ON BLOCK_CURSOR_OFF "[]", THEN conjunct1]
    SetCursor_two_frames [of working UNDERLINE_CURSOR_OFF BLOCK_CURSOR_ON "[]", THEN conjunct1]
    SetCursor_two_frames [of working UNDERLINE_CURSOR_OFF BLOCK_CURSOR_OFF "[]", THEN conjunct1]
  by (simp add: working_def recorder_def command_table)

text \<open>
  Claim C4, as amended. \<open>CreateCustomChar\<close> with slot 0 and the glyph of eight zero bytes
  writes exactly 0xFE, 0x4E, 0x00 and eight zero bytes, which is 11 bytes in total: three
  bytes of header and eight of glyph.
\<close>

theorem CreateCustomChar_blank:
  "CreateCustomChar l 0 [0, 0, 0, 0, 0, 0, 0, 0] s =
     (case Write l [0xFE, 0x4E, 0x00, 0, 0, 0, 0, 0, 0, 0, 0] s of ((n, e), s') \<Rightarrow> (e, s'))
   \<and> CreateCustomChar (recorder res) 0 [0, 0, 0, 0, 0, 0, 0, 0] log =
       (snd (res [0xFE, 0x4E, 0x00, 0, 0, 0, 0, 0, 0, 0, 0]),
        log @ [[0xFE, 0x4E, 0x00, 0, 0, 0, 0, 0, 0, 0, 0]])
   \<and> length (last (snd (CreateCustomChar (recorder res) 0 [0, 0, 0, 0, 0, 0, 0, 0] log))) = 11"
  by (simp add: CreateCustomChar_def command_table Raw_recorder) (simp add: Raw_one_write split: prod.splits)

theorem CreateCustomChar_blank_witness:
  "CreateCustomChar working 0 [0, 0, 0, 0, 0, 0, 0, 0] [] =
     (None, [[0xFE, 0x4E, 0x00, 0, 0, 0, 0, 0, 0, 0, 0]])
   \<and> length (last (snd (CreateCustomChar working 0 [0, 0, 0, 0, 0, 0, 0, 0] []))) = 11"
  using CreateCustomChar_blank
    [of working "[]" "\<lambda>bytes. (int (length bytes), None :: string option)" "[]"]
  by (simp add: working_def recorder_def)

text \<open>
  The sequence that claim C4 lists is the one written, but its length is not the 10 bytes
  that the claim counts.
\<close>

theorem CreateCustomChar_blank_ten_bytes_counterexample:
  "snd (CreateCustomChar working 0 [0, 0, 0, 0, 0, 0, 0, 0] []) =
     [[0xFE, 0x4E, 0x00, 0, 0, 0, 0, 0, 0, 0, 0]]
   \<and> length (concat (snd (CreateCustomChar working 0 [0, 0, 0, 0, 0, 0, 0, 0] []))) \<noteq> 10"
  by (simp add: CreateCustomChar_def command_table working_def Raw_recorder)

text \<open>
  Claim C7. \<open>Raw\<close> hands its bytes to one \<open>Write\<close> call as they are, with no prefix and
  no other framing byte; for the text ``Hi'' these are the two bytes 0x48 and 0x69 of
  `H' and `i'.
\<close>

theorem Raw_verbatim:
  "Raw l bytes s = (case Write l bytes s of ((n, e), s') \<Rightarrow> (e, s'))
   \<and> Raw (recorder res) bytes log = (snd (res bytes), log @ [bytes])
   \<and> Raw (recorder res) (map of_char ''Hi'') log = (snd (res [0x48, 0x69]), log @ [[0x48, 0x69]])"
  by (simp add: Raw_recorder) (simp add: Raw_one_write split: prod.splits)

theorem Raw_verbatim_witness:
  "Raw working (map of_char ''Hi'') [] = (None, [[0x48, 0x69]])
   \<and> Raw working [] [] = (None, [[]])
   \<and> Raw working [0xFE, 0x58] [[0x48]] = (None, [[0x48], [0xFE, 0x58]])"
  using Raw_verbatim [of working "map of_char ''Hi''" "[]", THEN conjunct1]
    Raw_verbatim [of working "[]" "[]", THEN conjunct1]
    Raw_verbatim [of working "[0xFE, 0x58]" "[[0x48]]", THEN conjunct1]
  by (simp add: working_def recorder_def)

text \<open>
  Claim C8. Whatever the one \<open>Write\<close> call of an encoder operation answers, with count
  \<open>n\<close> and error \<open>err\<close>, the operation returns \<open>err\<close> itself and leaves the sink in the
  state after that call: a failure comes back unchanged, with no retry and no count of
  bytes, and \<open>nil\<close> comes back as \<open>nil\<close>.
\<close>

theorem transport_result_unchanged:
  "Write l (spec_wire operation) s = ((n, err), s') \<Longrightarrow> call l operation s = (err, s')"
  by (simp add: call_eq_Raw Raw_one_write)

theorem transport_result_unchanged_witness:
  "Write (broken ''port closed'') (spec_wire OpClear) [] = ((0, Some ''port closed''), [[0xFE, 0x58]])
   \<and> call (broken ''port closed'') OpClear [] = (Some ''port closed'', [[0xFE, 0x58]])
   \<and> Write working (spec_wire (OpRaw [0x48, 0x69])) [] = ((2, None), [[0x48, 0x69]])
   \<and> call working (OpRaw [0x48, 0x69]) [] = (None, [[0x48, 0x69]])"
proof -
  have f: "Write (broken ''port closed'') (spec_wire OpClear) [] =
      ((0, Some ''port closed''), [[0xFE, 0x58]])"
    by (simp add: broken_def recorder_def)
  have w: "Write working (spec_wire (OpRaw [0x48, 0x69])) [] = ((2, None), [[0x48, 0x69]])"
    by (simp add: working_def recorder_def)
  from transport_result_unchanged [OF f] transport_result_unchanged [OF w] f w
  show ?thesis by simp
qed

text \<open>
  Claim C10. \<open>CreateCustomChar\<close> checks no range of its slot: for every byte \<open>spot\<close>, the
  values above 7 included, and every glyph of 8 bytes it writes 0xFE, 0x4E, \<open>spot\<close> and
  the 8 glyph bytes as they are, 11 bytes in one call, and returns what the sink answers
  and nothing else.
\<close>

theorem CreateCustomChar_any_slot:
  "length c = 8 \<Longrightarrow>
     CreateCustomChar l spot c s =
       (case Write l ([0xFE, 0x4E, spot] @ c) s of ((n, e), s') \<Rightarrow> (e, s'))
     \<and> CreateCustomChar (recorder res) spot c log =
         (snd (res ([0xFE, 0x4E, spot] @ c)), log @ [[0xFE, 0x4E, spot] @ c])
     \<and> length ([0xFE, 0x4E, spot] @ c) = 11"
  by (simp add: CreateCustomChar_def command_table Raw_recorder) (simp add: Raw_one_write split: prod.splits)

theorem CreateCustomChar_any_slot_witness:
  "length [0, 10, 21, 17, 17, 10, 4, 0 :: byte] = 8
   \<and> CreateCustomChar working 8 [0, 10, 21, 17, 17, 10, 4, 0] [] =
       (None, [[0xFE, 0x4E, 8, 0, 10, 21, 17, 17, 10, 4, 0]])
   \<and> CreateCustomChar working 255 [0, 10, 21, 17, 17, 10, 4, 0] [] =
       (None, [[0xFE, 0x4E, 255, 0, 10, 21, 17, 17, 10, 4, 0]])"
  using CreateCustomChar_any_slot [of "[0, 10, 21, 17, 17, 10, 4, 0]" working 8 "[]", THEN conjunct1]
    CreateCustomChar_any_slot [of "[0, 10, 21, 17, 17, 10, 4, 0]" working 255 "[]", THEN conjunct1]
  by (simp add: working_def recorder_def)

subsection \<open>The glyph compiler: claims\<close>

text \<open>
  Claim C5. \<open>MakeChar\<close> compiles each of the 8 rows on its own and in order: byte \<open>i\<close> of
  the glyph is the number that the specification's scan gives for row \<open>i\<close>, going left to
  right through the row's characters (the runes that ranging over the string yields),
  shifting the accumulator left by one bit within the byte at each character and setting
  the new low bit exactly for a character that is neither space nor period. So a pattern
  of ``off'' markers only compiles to eight zero bytes, and a pattern of ``on'' markers
  with exactly 5 characters in every row compiles to eight bytes 0x1F.
\<close>

theorem MakeChar_rows:
  "(length lines = 8 \<longrightarrow>
      length (MakeChar lines) = 8
      \<and> (\<forall>i<8. unat (MakeChar lines ! i) = spec_row (range_string (lines ! i))))
   \<and> (length offs = 8 \<and> (\<forall>line \<in> set offs. \<forall>c \<in> set (range_string line). \<not> on_marker c) \<longrightarrow>
        MakeChar offs = [0, 0, 0, 0, 0, 0, 0, 0])
   \<and> (length ons = 8
        \<and> (\<forall>line \<in> set ons. length (range_string line) = 5
              \<and> (\<forall>c \<in> set (range_string line). on_marker c)) \<longrightarrow>
        MakeChar ons = [0x1F, 0x1F, 0x1F, 0x1F, 0x1F, 0x1F, 0x1F, 0x1F])"
proof (intro conjI impI)
  assume "length lines = 8"
  then show "length (MakeChar lines) = 8"
    by (simp add: MakeChar_map)
next
  assume "length lines = 8"
  then show "\<forall>i<8. unat (MakeChar lines ! i) = spec_row (range_string (lines ! i))"
    by (simp add: MakeChar_map unat_scan_line spec_row_def)
next
  assume a: "length offs = 8 \<and> (\<forall>line \<in> set offs. \<forall>c \<in> set (range_string line). \<not> on_marker c)"
  then have "\<forall>line \<in> set offs. scan_line 0 (range_string line) = 0"
    by (simp add: scan_line_all_off)
  then have "map (\<lambda>line. scan_line 0 (range_string line)) offs = replicate (length offs) 0"
    by (rule map_constant)
  with a show "MakeChar offs = [0, 0, 0, 0, 0, 0, 0, 0]"
    by (simp add: MakeChar_map replicate_eight)
next
  assume a: "length ons = 8
        \<and> (\<forall>line \<in> set ons. length (range_string line) = 5
              \<and> (\<forall>c \<in> set (range_string line). on_marker c))"
  then have "\<forall>line \<in> set ons. scan_line 0 (range_string line) = 0x1F"
    by (simp add: scan_line_five_on)
  then have "map (\<lambda>line. scan_line 0 (range_string line)) ons = replicate (length ons) 0x1F"
    by (rule map_constant)
  with a show "MakeChar ons = [0x1F, 0x1F, 0x1F, 0x1F, 0x1F, 0x1F, 0x1F, 0x1F]"
    by (simp add: MakeChar_map replicate_eight)
qed

theorem MakeChar_rows_witness:
  "length heart = 8
   \<and> unat (MakeChar heart ! 1) = 10 \<and> unat (MakeChar heart ! 2) = 21
   \<and> unat (MakeChar heart ! 6) = 4
   \<and> MakeChar blank_pattern = [0, 0, 0, 0, 0, 0, 0, 0]
   \<and> MakeChar full_pattern = [0x1F, 0x1F, 0x1F, 0x1F, 0x1F, 0x1F, 0x1F, 0x1F]"
proof -
  have h: "length heart = 8"
    by (simp add: heart_def)
  have off: "length blank_pattern = 8
      \<and> (\<forall>line \<in> set blank_pattern. \<forall>c \<in> set (range_string line). \<not> on_marker c)"
    by code_simp
  have on: "length full_pattern = 8
      \<and> (\<forall>line \<in> set full_pattern. length (range_string line) = 5
            \<and> (\<forall>c \<in> set (range_string line). on_marker c))"
    by code_simp
  have rows: "spec_row (range_string (heart ! 1)) = 10" "spec_row (range_string (heart ! 2)) = 21"
    "spec_row (range_string (heart ! 6)) = 4"
    by code_simp+
  from MakeChar_rows [of heart blank_pattern full_pattern] h off on rows
  show ?thesis by simp
qed

text \<open>
  Claim C6, as amended. \<open>MakeChar\<close> returns a glyph of 8 bytes for rows of any length; it
  has no error to raise. Bit \<open>k\<close> of a row's byte is set exactly when \<open>k < 8\<close>, the row has
  more than \<open>k\<close> characters and the character \<open>k\<close> places before its last is an ``on''
  marker; the byte is therefore that of the row's last 8 characters, and it is below
  \<open>2 ^ n\<close> for a row of \<open>n\<close> characters. So a row longer than 8 characters loses the bits of
  all but its last 8 characters, a row of 6 to 8 characters keeps every character's bit in
  the byte (the earlier ones in bits 5 to 7), and a row of fewer than 5 characters fills
  the low bits and leaves the high bits zero.
\<close>

theorem MakeChar_row_bits:
  "length lines = 8 \<Longrightarrow> i < 8 \<Longrightarrow>
     length (MakeChar lines) = 8
     \<and> (bit (MakeChar lines ! i) k \<longleftrightarrow>
          k < 8 \<and> k < length (range_string (lines ! i))
          \<and> on_marker (range_string (lines ! i) ! (length (range_string (lines ! i)) - 1 - k)))
     \<and> MakeChar lines ! i =
          scan_line 0 (drop (length (range_string (lines ! i)) - 8) (range_string (lines ! i)))
     \<and> unat (MakeChar lines ! i) < 2 ^ length (range_string (lines ! i))"
proof (intro conjI)
  assume l: "length lines = 8" and i: "i < 8"
  then have row: "MakeChar lines ! i = scan_line 0 (range_string (lines ! i))"
    by (simp add: MakeChar_map)
  from l show "length (MakeChar lines) = 8"
    by (simp add: MakeChar_map)
  show "bit (MakeChar lines ! i) k \<longleftrightarrow>
          k < 8 \<and> k < length (range_string (lines ! i))
          \<and> on_marker (range_string (lines ! i) ! (length (range_string (lines ! i)) - 1 - k))"
    by (auto simp: row bit_scan_line rev_nth)
  show "MakeChar lines ! i =
          scan_line 0 (drop (length (range_string (lines ! i)) - 8) (range_string (lines ! i)))"
    unfolding row by (rule scan_line_last_eight)
  show "unat (MakeChar lines ! i) < 2 ^ length (range_string (lines ! i))"
    by (simp add: row unat_scan_line spec_row_bound)
qed

theorem MakeChar_row_bits_witness:
  "length ragged = 8
   \<and> bit (MakeChar ragged ! 0) 0 \<and> unat (MakeChar ragged ! 0) < 2
   \<and> bit (MakeChar ragged ! 1) 5
   \<and> MakeChar ragged ! 2 = 0"
proof -
  have l: "length ragged = 8"
    by (simp add: ragged_def)
  have r0: "range_string (ragged ! 0) = [0x2A]"
    and r1: "range_string (ragged ! 1) = [0x2A, 0x2E, 0x2E, 0x2E, 0x2E, 0x2E]"
    and r2: "range_string (ragged ! 2) = [0x2A, 0x2E, 0x2E, 0x2E, 0x2E, 0x2E, 0x2E, 0x2E, 0x2E]"
    by code_simp+
  have z: "scan_line 0 [0x2E, 0x2E, 0x2E, 0x2E, 0x2E, 0x2E, 0x2E, 0x2E] = 0"
    by code_simp
  note row0 = MakeChar_row_bits [OF l, of 0 0]
  note row1 = MakeChar_row_bits [OF l, of 1 5]
  note row2 = MakeChar_row_bits [OF l, of 2 0]
  from row0 [THEN conjunct2, THEN conjunct1] r0 have b0: "bit (MakeChar ragged ! 0) 0"
    by (simp add: on_marker_def)
  from row0 [THEN conjunct2, THEN conjunct2, THEN conjunct2] r0
  have u0: "unat (MakeChar ragged ! 0) < 2"
    by simp
  from row1 [THEN conjunct2, THEN conjunct1] r1 have b1: "bit (MakeChar ragged ! 1) 5"
    by (simp add: on_marker_def)
  from row2 [THEN conjunct2, THEN conjunct2, THEN conjunct1] r2 z
  have b2: "MakeChar ragged ! 2 = 0"
    by simp
  from l b0 u0 b1 b2 show ?thesis by simp
qed

text \<open>
  Against claim C6 as it was stated: the row of the single character \<open>*\<close> compiles to
  0x01, whose low bit is set, and the row \<open>*.....\<close> of 6 characters compiles to 0x20, so
  the bit of its first character is still in the byte.
\<close>

theorem MakeChar_row_lengths_counterexample:
  "MakeChar ragged ! 0 = 0x01 \<and> bit (MakeChar ragged ! 0) 0
   \<and> MakeChar ragged ! 1 = 0x20 \<and> bit (MakeChar ragged ! 1) 5"
  by code_simp

text \<open>
  Claim C9. \<open>MakeChar\<close> is a function of its pattern and of nothing else: the same 8 rows
  compile to the same 8 bytes. The glyph even depends only on which characters of each
  row are ``on'' markers.
\<close>

theorem MakeChar_deterministic:
  "length lines = 8 \<Longrightarrow>
     length (MakeChar lines) = 8
     \<and> (lines' = lines \<longrightarrow> MakeChar lines' = MakeChar lines)
     \<and> (map (\<lambda>line. map on_marker (range_string line)) lines' =
          map (\<lambda>line. map on_marker (range_string line)) lines \<longrightarrow>
        MakeChar lines' = MakeChar lines)"
proof (intro conjI impI)
  assume l: "length lines = 8"
  then show "length (MakeChar lines) = 8"
    by (simp add: MakeChar_map)
  show "MakeChar lines' = MakeChar lines" if "lines' = lines"
    using that by simp
  show "MakeChar lines' = MakeChar lines"
    if p: "map (\<lambda>line. map on_marker (range_string line)) lines' =
           map (\<lambda>line. map on_marker (range_string line)) lines"
  proof -
    from p have "length lines' = length lines"
      by (rule map_eq_imp_length_eq)
    with l have l': "length lines' = 8" by simp
    have "scan_line 0 (range_string (lines' ! i)) = scan_line 0 (range_string (lines ! i))"
      if "i < 8" for i
    proof -
      from p have "map (\<lambda>line. map on_marker (range_string line)) lines' ! i =
          map (\<lambda>line. map on_marker (range_string line)) lines ! i"
        by simp
      with that l l' show ?thesis
        by (intro scan_line_pattern) simp
    qed
    with l l' show ?thesis
      by (simp add: MakeChar_map list_eq_iff_nth_eq)
  qed
qed

theorem MakeChar_deterministic_witness:
  "length heart = 8 \<and> length (MakeChar heart) = 8 \<and> MakeChar hash_heart = MakeChar heart"
proof -
  have l: "length heart = 8"
    by (simp add: heart_def)
  have p: "map (\<lambda>line. map on_marker (range_string line)) hash_heart =
      map (\<lambda>line. map on_marker (range_string line)) heart"
    by code_simp
  from MakeChar_deterministic [OF l, of hash_heart] p l show ?thesis by simp
qed

subsection \<open>Further properties of the glyph compiler\<close>

text \<open>
  The heart of the documentation compiles to the rows 0x00, 0x0A, 0x15, 0x11, 0x11, 0x0A,
  0x04, 0x00.
\<close>

theorem MakeChar_heart:
  "MakeChar heart = [0x00, 0x0A, 0x15, 0x11, 0x11, 0x0A, 0x04, 0x00]"
  by code_simp

text \<open>
  In a row of ASCII bytes every byte is one character of the row, so such a row of
  \<open>n\<close> bytes shifts \<open>n\<close> bits in.
\<close>

theorem range_string_ascii:
  "\<forall>ch \<in> set line. (of_char ch :: byte) < 0x80 \<Longrightarrow>
     range_string line = map (\<lambda>ch. rune_of (of_char ch)) line"
  by (simp add: range_string_def range_bytes_ascii comp_def)

theorem range_string_ascii_witness:
  "range_string ''.*.*.'' = [0x2E, 0x2A, 0x2E, 0x2A, 0x2E]"
proof -
  have "\<forall>ch \<in> set ''.*.*.''. (of_char ch :: byte) < 0x80"
    by simp
  from range_string_ascii [OF this] show ?thesis
    by (simp add: rune_of_def)
qed

text \<open>
  A character is a code point, not a byte: the three bytes of U+2588 are one ``on''
  marker, five of them in a row give 0x1F, and a byte that is not UTF-8 counts as one
  ``on'' marker (U+FFFD) by itself.
\<close>

theorem MakeChar_counts_code_points:
  "range_string [CHR 0xE2, CHR 0x96, CHR 0x88] = [0x2588]
   \<and> length (full_pattern ! 7) = 15 \<and> MakeChar full_pattern ! 7 = 0x1F
   \<and> range_string [CHR 0xFF, CHR ''.''] = [0xFFFD, 0x2E]
   \<and> scan_line 0 (range_string [CHR 0xFF, CHR ''.'']) = 2"
  by code_simp

end
